theory Spec2Isabelle
  imports Complex_Main
begin

section \<open>Scrape orchestration and scheduling engine\<close>

text \<open>
  A shallow embedding of \<^verbatim>\<open>app/core/config.py\<close>,
  \<^verbatim>\<open>app/services/enhanced_job_scraper.py\<close> and
  \<^verbatim>\<open>app/services/job_scheduler.py\<close>.

  Conventions. Python \<^verbatim>\<open>int\<close> is \<open>int\<close>; Python \<^verbatim>\<open>float\<close> is \<open>real\<close>
  (rounding is not modelled; the properties proved about floats below are order properties
  of \<open>min\<close>, comparison and affine interpolation). A \<^verbatim>\<open>datetime\<close> is an \<open>int\<close>
  count of microseconds and \<^verbatim>\<open>timedelta(minutes=m)\<close> is \<open>m * 60000000\<close>.
  Every call of \<^verbatim>\<open>datetime.now()\<close>, \<^verbatim>\<open>time.time()\<close> and
  \<^verbatim>\<open>random.random()\<close> is an explicit argument. Strings are ASCII.
  An exception is a value of \<open>py_exception\<close>; a function that may raise returns
  \<open>py_exception + 'a\<close> with \<open>Inl\<close> the raised exception.
\<close>

subsection \<open>Exceptions\<close>

datatype scrape_msg =
    HttpError int string   \<comment> \<open>\<^verbatim>\<open>f"HTTP {e.status}: {e.message}"\<close>\<close>
  | RequestTimeout string  \<comment> \<open>\<^verbatim>\<open>f"Request timeout for {url}"\<close>\<close>

datatype py_exception =
    ClientResponseError int string  \<comment> \<open>raised by \<^verbatim>\<open>raise_for_status\<close>: status, message\<close>
  | ClientError string              \<comment> \<open>any other \<^verbatim>\<open>aiohttp.ClientError\<close>, e.g. a connection error\<close>
  | TimeoutError                    \<comment> \<open>\<^verbatim>\<open>asyncio.TimeoutError\<close>\<close>
  | JobScrapeError scrape_msg
  | ZeroDivisionError
  | ValueError
  | Exception string                \<comment> \<open>any other exception, with its \<^verbatim>\<open>str(e)\<close>\<close>

subsection \<open>Settings (app/core/config.py)\<close>

record Settings =
  SCRAPING_ENABLED :: bool
  SCRAPING_INTERVAL_MINUTES :: int
  SCRAPING_MAX_JOBS_PER_RUN :: int
  SCRAPING_CONCURRENT_REQUESTS :: int
  SCRAPING_DELAY_BETWEEN_REQUESTS :: real
  RATE_LIMIT_REQUESTS_PER_MINUTE :: int
  RATE_LIMIT_BURST_SIZE :: int
  ENABLE_REMOTEOK :: bool
  ENABLE_YCOMBINATOR :: bool
  ENABLE_WELLFOUND :: bool
  ENABLE_OTTA :: bool
  ENABLE_ERROR_NOTIFICATIONS :: bool
  ERROR_NOTIFICATION_EMAIL :: "string option"
  SLACK_WEBHOOK_URL :: "string option"
  SMTP_PORT :: int
  SMTP_USER :: string
  SCRAPING_RATE_LIMIT :: int
  MAX_CONCURRENT_REQUESTS :: int

text \<open>\<^verbatim>\<open>os.getenv(name, default)\<close> on an environment \<open>env\<close>.\<close>

definition getenv :: "(string \<rightharpoonup> string) \<Rightarrow> string \<Rightarrow> string \<Rightarrow> string" where
  "getenv env name dflt = (case env name of None \<Rightarrow> dflt | Some v \<Rightarrow> v)"

text \<open>
  Every conversion in the class body of \<^verbatim>\<open>Settings\<close> that can raise, in the order
  of the file: the \<^verbatim>\<open>int(os.getenv(NAME, default))\<close> and
  \<^verbatim>\<open>float(os.getenv(NAME, default))\<close> of lines 23--30, \<^verbatim>\<open>SMTP_PORT\<close> (line 62), and
  the two legacy fields of lines 67--68, which read
  \<^verbatim>\<open>SCRAPING_DELAY_BETWEEN_REQUESTS\<close> and \<^verbatim>\<open>SCRAPING_CONCURRENT_REQUESTS\<close> a second
  time, both with \<^verbatim>\<open>int\<close>. The builtins \<^verbatim>\<open>int\<close> and \<^verbatim>\<open>float\<close> are the
  parameters \<open>py_int\<close> and \<open>py_float\<close> (\<open>None\<close> when the builtin raises
  \<^verbatim>\<open>ValueError\<close>). The class body holds nothing else for these fields: no validator, no
  bound; the fields are annotated with the bare types \<^verbatim>\<open>int\<close> and \<^verbatim>\<open>float\<close>. The
  remaining fields, none of which can raise, are taken from \<open>base\<close>.
\<close>

definition load_settings ::
  "(string \<Rightarrow> int option) \<Rightarrow> (string \<Rightarrow> real option) \<Rightarrow> (string \<rightharpoonup> string) \<Rightarrow> Settings
     \<Rightarrow> py_exception + Settings" where
  "load_settings py_int py_float env base =
     (case py_int (getenv env ''SCRAPING_INTERVAL_MINUTES'' ''60'') of None \<Rightarrow> Inl ValueError
      | Some interval \<Rightarrow>
     (case py_int (getenv env ''SCRAPING_MAX_JOBS_PER_RUN'' ''200'') of None \<Rightarrow> Inl ValueError
      | Some max_jobs \<Rightarrow>
     (case py_int (getenv env ''SCRAPING_CONCURRENT_REQUESTS'' ''5'') of None \<Rightarrow> Inl ValueError
      | Some concurrent \<Rightarrow>
     (case py_float (getenv env ''SCRAPING_DELAY_BETWEEN_REQUESTS'' ''2.0'') of None \<Rightarrow> Inl ValueError
      | Some delay \<Rightarrow>
     (case py_int (getenv env ''RATE_LIMIT_REQUESTS_PER_MINUTE'' ''100'') of None \<Rightarrow> Inl ValueError
      | Some rpm \<Rightarrow>
     (case py_int (getenv env ''RATE_LIMIT_BURST_SIZE'' ''20'') of None \<Rightarrow> Inl ValueError
      | Some burst \<Rightarrow>
     (case py_int (getenv env ''SMTP_PORT'' ''587'') of None \<Rightarrow> Inl ValueError
      | Some smtp_port \<Rightarrow>
     (case py_int (getenv env ''SCRAPING_DELAY_BETWEEN_REQUESTS'' ''2'') of None \<Rightarrow> Inl ValueError
      | Some rate_limit \<Rightarrow>
     (case py_int (getenv env ''SCRAPING_CONCURRENT_REQUESTS'' ''5'') of None \<Rightarrow> Inl ValueError
      | Some max_concurrent \<Rightarrow>
        Inr (base\<lparr>SCRAPING_INTERVAL_MINUTES := interval,
                  SCRAPING_MAX_JOBS_PER_RUN := max_jobs,
                  SCRAPING_CONCURRENT_REQUESTS := concurrent,
                  SCRAPING_DELAY_BETWEEN_REQUESTS := delay,
                  RATE_LIMIT_REQUESTS_PER_MINUTE := rpm,
                  RATE_LIMIT_BURST_SIZE := burst,
                  SMTP_PORT := smtp_port,
                  SCRAPING_RATE_LIMIT := rate_limit,
                  MAX_CONCURRENT_REQUESTS := max_concurrent\<rparr>))))))))))"

text \<open>
  A reading of plain decimal numerals, used to run \<open>load_settings\<close> on concrete
  environments. On a non-empty string of ASCII digits \<open>decimal_int\<close> agrees with Python's
  \<^verbatim>\<open>int\<close>, and on such a string, or two of them joined by one point, \<open>decimal_float\<close>
  agrees with Python's \<^verbatim>\<open>float\<close>; every other string is refused here. A string with
  a point is refused by \<open>decimal_int\<close>, as it is by \<^verbatim>\<open>int\<close>.
\<close>

definition digit_val :: "char \<Rightarrow> int option" where
  "digit_val c =
     (if (48::nat) \<le> of_char c \<and> of_char c \<le> (57::nat)
      then Some (int (of_char c) - 48) else None)"

fun decimal_acc :: "int \<Rightarrow> string \<Rightarrow> int option" where
  "decimal_acc acc [] = Some acc"
| "decimal_acc acc (c # cs) =
     (case digit_val c of None \<Rightarrow> None | Some d \<Rightarrow> decimal_acc (10 * acc + d) cs)"

definition decimal_int :: "string \<Rightarrow> int option" where
  "decimal_int s = (if s = [] then None else decimal_acc 0 s)"

definition decimal_float :: "string \<Rightarrow> real option" where
  "decimal_float s =
     (let whole = takeWhile (\<lambda>c. c \<noteq> CHR ''.'') s;
          rest = dropWhile (\<lambda>c. c \<noteq> CHR ''.'') s
      in if rest = [] then map_option real_of_int (decimal_int whole)
         else (case (decimal_int whole, decimal_int (tl rest)) of
                 (Some i, Some f) \<Rightarrow> Some (real_of_int i + real_of_int f / 10 ^ length (tl rest))
               | _ \<Rightarrow> None))"

subsection \<open>JobData and the fingerprint\<close>

datatype JobSource = REMOTEOK | YCOMBINATOR | WELLFOUND | OTTA | GITHUB_JOBS | STACKOVERFLOW

record JobData =
  title :: string
  company :: string
  description :: string
  location :: string
  salary_min :: "int option"
  salary_max :: "int option"
  job_type :: string
  remote_type :: string
  experience_level :: string
  skills :: "string list"
  external_url :: string
  source :: string
  posted_date :: int
  source_id :: string

text \<open>\<^verbatim>\<open>str.lower()\<close> on ASCII text.\<close>

definition lower_char :: "char \<Rightarrow> char" where
  "lower_char c =
     (if (65::nat) \<le> of_char c \<and> of_char c \<le> (90::nat) then char_of (of_char c + (32::nat)) else c)"

definition lower :: "string \<Rightarrow> string" where
  "lower s = map lower_char s"

text \<open>
  \<^verbatim>\<open>_generate_job_hash\<close>: the MD5 hex digest of
  \<^verbatim>\<open>f"{title.lower()}-{company.lower()}-{source_id}"\<close>. The digest function of
  \<^verbatim>\<open>hashlib\<close> is the parameter \<open>md5\<close>.
\<close>

definition generate_job_hash :: "(string \<Rightarrow> string) \<Rightarrow> JobData \<Rightarrow> string" where
  "generate_job_hash md5 job_data =
     md5 (lower (title job_data) @ ''-'' @ lower (company job_data) @ ''-'' @ source_id job_data)"

text \<open>
  \<^verbatim>\<open>_is_duplicate_job\<close>, on the set \<^verbatim>\<open>self.scraped_job_hashes\<close>: returns the
  answer and the updated set.
\<close>

definition is_duplicate_job :: "(string \<Rightarrow> string) \<Rightarrow> JobData \<Rightarrow> string set \<Rightarrow> bool \<times> string set" where
  "is_duplicate_job md5 job_data scraped_job_hashes =
     (let job_hash = generate_job_hash md5 job_data
      in if job_hash \<in> scraped_job_hashes then (True, scraped_job_hashes)
         else (False, insert job_hash scraped_job_hashes))"

subsection \<open>RateLimiter\<close>

record RateLimiter =
  requests_per_minute :: int
  burst_size :: int
  tokens :: real
  last_update :: real

definition RateLimiter_init :: "int \<Rightarrow> int \<Rightarrow> real \<Rightarrow> RateLimiter" where
  "RateLimiter_init rpm burst now =
     \<lparr>requests_per_minute = rpm, burst_size = burst, tokens = real_of_int burst, last_update = now\<rparr>"

datatype acquire_result =
    Immediate           \<comment> \<open>a token was there: \<^verbatim>\<open>tokens -= 1; return\<close>\<close>
  | Slept real          \<comment> \<open>\<^verbatim>\<open>asyncio.sleep(wait_time)\<close>, then \<^verbatim>\<open>tokens = 0\<close>\<close>
  | Raised py_exception \<comment> \<open>the division by \<^verbatim>\<open>requests_per_minute / 60.0\<close> failed\<close>

text \<open>
  \<^verbatim>\<open>RateLimiter.acquire\<close> with \<open>now\<close> the value of \<^verbatim>\<open>time.time()\<close>. The refill
  assignments to \<^verbatim>\<open>tokens\<close> and \<^verbatim>\<open>last_update\<close> happen before the division, so
  they stay in the state when the division raises.
\<close>

definition acquire :: "real \<Rightarrow> RateLimiter \<Rightarrow> acquire_result \<times> RateLimiter" where
  "acquire now rl =
     (let time_passed = now - last_update rl;
          refilled = min (real_of_int (burst_size rl))
                         (tokens rl + time_passed * (real_of_int (requests_per_minute rl) / 60));
          rl1 = rl\<lparr>tokens := refilled, last_update := now\<rparr>
      in if tokens rl1 \<ge> 1 then (Immediate, rl1\<lparr>tokens := tokens rl1 - 1\<rparr>)
         else if requests_per_minute rl = 0 then (Raised ZeroDivisionError, rl1)
         else (Slept ((1 - tokens rl1) / (real_of_int (requests_per_minute rl) / 60)),
               rl1\<lparr>tokens := 0\<rparr>))"


subsection \<open>The request executor: \<^verbatim>\<open>_make_request\<close>\<close>

text \<open>
  \<^verbatim>\<open>random.uniform(a, b)\<close> is \<^verbatim>\<open>a + (b - a) * self.random()\<close> in the standard
  library, with \<^verbatim>\<open>random()\<close> in \<open>[0, 1)\<close>; \<open>u\<close> is that draw.
\<close>

definition uniform :: "real \<Rightarrow> real \<Rightarrow> real \<Rightarrow> real" where
  "uniform a b u = a + (b - a) * u"

text \<open>
  The delay slept before sending:
  \<^verbatim>\<open>random.uniform(0.5, settings.SCRAPING_DELAY_BETWEEN_REQUESTS)\<close>.
\<close>

definition request_delay :: "Settings \<Rightarrow> real \<Rightarrow> real" where
  "request_delay cfg u = uniform (1 / 2) (SCRAPING_DELAY_BETWEEN_REQUESTS cfg) u"

text \<open>The closed interval between 0.5 and the configured delay, whichever is larger.\<close>

definition delay_ok :: "Settings \<Rightarrow> real \<Rightarrow> bool" where
  "delay_ok cfg d \<longleftrightarrow>
     min (1 / 2) (SCRAPING_DELAY_BETWEEN_REQUESTS cfg) \<le> d
     \<and> d \<le> max (1 / 2) (SCRAPING_DELAY_BETWEEN_REQUESTS cfg)"

text \<open>
  What \<^verbatim>\<open>self.session.request(...)\<close> followed by \<^verbatim>\<open>response.raise_for_status()\<close>
  does on one attempt: it yields a response (its body here), or raises.
\<close>

datatype attempt = Response string | Raises py_exception

text \<open>
  The environment of one \<^verbatim>\<open>_make_request\<close> call, indexed by the number of the try
  (from 0): the clock read by the limiter, the random draw of the delay, what the network
  does, and the seconds elapsed since the first try as the retry decorator measures them
  at the start of each try.
\<close>

record request_env =
  clock :: "nat \<Rightarrow> real"
  draw :: "nat \<Rightarrow> real"
  network :: "nat \<Rightarrow> attempt"
  elapsed :: "nat \<Rightarrow> real"

record request_run =
  outcome :: "py_exception + string"
  attempts :: nat         \<comment> \<open>how many times \<^verbatim>\<open>session.request\<close> was called\<close>
  delays :: "real list"   \<comment> \<open>the jittered delays slept, in order\<close>
  limiter :: RateLimiter

text \<open>
  The \<^verbatim>\<open>try\<close> block of \<^verbatim>\<open>_make_request\<close> with its two handlers, in their order:
  a \<^verbatim>\<open>ClientResponseError\<close> and an \<^verbatim>\<open>asyncio.TimeoutError\<close> are both re-raised as
  \<^verbatim>\<open>JobScrapeError\<close>; any other exception passes through.
\<close>

fun send_request :: "string \<Rightarrow> attempt \<Rightarrow> py_exception + string" where
  "send_request url (Response r) = Inr r"
| "send_request url (Raises (ClientResponseError status message)) =
     Inl (JobScrapeError (HttpError status message))"
| "send_request url (Raises TimeoutError) = Inl (JobScrapeError (RequestTimeout url))"
| "send_request url (Raises e) = Inl e"

text \<open>
  The exceptions named in \<^verbatim>\<open>@backoff.on_exception(backoff.expo,
  (aiohttp.ClientError, asyncio.TimeoutError), max_tries=3, max_time=60)\<close>.
  \<^verbatim>\<open>JobScrapeError\<close> derives from \<^verbatim>\<open>Exception\<close> only.
\<close>

fun retryable :: "py_exception \<Rightarrow> bool" where
  "retryable (ClientResponseError status message) = True"
| "retryable (ClientError message) = True"
| "retryable TimeoutError = True"
| "retryable e = False"

definition max_tries :: nat where
  "max_tries = 3"

definition max_time :: real where
  "max_time = 60"

text \<open>
  The decorated \<^verbatim>\<open>_make_request\<close>. One try is the whole function body:
  \<^verbatim>\<open>rate_limiter.acquire()\<close> (whose exception is not one the decorator retries), the
  jittered sleep, the request. The decorator's loop is the \<^verbatim>\<open>backoff\<close> library's:
  count the try, run the body, and on an exception of the listed classes give up when
  \<^verbatim>\<open>tries == max_tries\<close> or \<^verbatim>\<open>elapsed >= max_time\<close>, otherwise wait and try again.
  The library compares with \<open>==\<close>; counting up from 0 in steps of one, \<open>\<ge>\<close> is the same
  test. The sleeps between tries are not part of the result.
\<close>

function make_request_from ::
  "Settings \<Rightarrow> request_env \<Rightarrow> string \<Rightarrow> nat \<Rightarrow> real list \<Rightarrow> RateLimiter \<Rightarrow> request_run" where
  "make_request_from cfg env url tries slept rl =
     (case acquire (clock env tries) rl of
        (Raised e, rl1) \<Rightarrow>
          \<lparr>outcome = Inl e, attempts = tries, delays = slept, limiter = rl1\<rparr>
      | (acquired, rl1) \<Rightarrow>
          (let slept1 = slept @ [request_delay cfg (draw env tries)]
           in case send_request url (network env tries) of
                Inr response \<Rightarrow>
                  \<lparr>outcome = Inr response, attempts = tries + 1, delays = slept1, limiter = rl1\<rparr>
              | Inl e \<Rightarrow>
                  if \<not> retryable e \<or> tries + 1 \<ge> max_tries \<or> elapsed env tries \<ge> max_time
                  then \<lparr>outcome = Inl e, attempts = tries + 1, delays = slept1, limiter = rl1\<rparr>
                  else make_request_from cfg env url (tries + 1) slept1 rl1))"
  by pat_completeness auto
termination
  by (relation "measure (\<lambda>(cfg, env, url, tries, slept, rl). max_tries - tries)") auto

definition make_request :: "Settings \<Rightarrow> request_env \<Rightarrow> string \<Rightarrow> RateLimiter \<Rightarrow> request_run" where
  "make_request cfg env url rl = make_request_from cfg env url 0 [] rl"

subsection \<open>Source adapters and \<^verbatim>\<open>scrape_all_sources\<close>\<close>

text \<open>What a scheduled run does that can be observed from outside.\<close>

datatype message =
    DisabledDueToFailures       \<comment> \<open>\<^verbatim>\<open>"Job scraping disabled due to consecutive failures"\<close>\<close>
  | ScrapingFailed py_exception \<comment> \<open>\<^verbatim>\<open>f"Job scraping failed: {str(e)}"\<close>\<close>
  | ScrapingSuccessful int      \<comment> \<open>\<^verbatim>\<open>f"Job scraping successful: {total_saved} new jobs added"\<close>\<close>
  | Alert message               \<comment> \<open>the \<^verbatim>\<open>"ALERT: "\<close> prefix that \<^verbatim>\<open>_send_alert\<close> adds\<close>

datatype event =
    AdapterCall JobSource       \<comment> \<open>the orchestrator awaits this source's scrape coroutine\<close>
  | SaveJobs "JobData list"      \<comment> \<open>\<^verbatim>\<open>_save_jobs_to_database\<close> is called with this batch\<close>
  | SlackPost message string    \<comment> \<open>message and level posted to the Slack webhook\<close>
  | EmailSent message string    \<comment> \<open>message and level handed to \<^verbatim>\<open>_send_email_notification\<close>\<close>

text \<open>
  The environment of one run of the scheduled task. The HTTP traffic and the parsing of
  each source are outside this model: \<open>source_result env src limit\<close> is the list of
  \<^verbatim>\<open>JobData\<close> records that the adapter of \<open>src\<close> builds, in order, when asked for
  \<open>limit\<close> jobs, or \<open>None\<close> when its fetch raises. \<open>session_error\<close> is an exception raised
  while the \<^verbatim>\<open>EnhancedJobScraper\<close> is constructed or entered, \<open>db_connect_error\<close> one
  raised by \<^verbatim>\<open>SessionLocal()\<close>, and \<open>db_saved\<close> the count that the database loop returns.
\<close>

record task_env =
  now_start :: int
  now_success :: int
  session_error :: "string option"
  source_result :: "JobSource \<Rightarrow> int \<Rightarrow> JobData list option"
  db_connect_error :: "string option"
  db_saved :: "JobData list \<Rightarrow> int"
  slack_error :: bool

definition source_enabled :: "Settings \<Rightarrow> JobSource \<Rightarrow> bool" where
  "source_enabled cfg src =
     (case src of REMOTEOK \<Rightarrow> ENABLE_REMOTEOK cfg | YCOMBINATOR \<Rightarrow> ENABLE_YCOMBINATOR cfg
      | WELLFOUND \<Rightarrow> ENABLE_WELLFOUND cfg | OTTA \<Rightarrow> ENABLE_OTTA cfg | _ \<Rightarrow> False)"

text \<open>
  The names under which \<^verbatim>\<open>scrape_all_sources\<close> files its tasks. The last two members
  of the enumeration have neither an adapter nor a task.
\<close>

definition source_name :: "JobSource \<Rightarrow> string" where
  "source_name src =
     (case src of REMOTEOK \<Rightarrow> ''RemoteOK'' | YCOMBINATOR \<Rightarrow> ''Y Combinator''
      | WELLFOUND \<Rightarrow> ''Wellfound'' | OTTA \<Rightarrow> ''Otta''
      | _ \<Rightarrow> [])"

text \<open>
  The loop shared by the four adapters:
  \<^verbatim>\<open>if not self._is_duplicate_job(job_data): jobs.append(job_data)\<close>.
\<close>

fun keep_new :: "(string \<Rightarrow> string) \<Rightarrow> JobData list \<Rightarrow> string set \<Rightarrow> JobData list \<times> string set" where
  "keep_new md5 [] hashes = ([], hashes)"
| "keep_new md5 (job_data # rest) hashes =
     (case is_duplicate_job md5 job_data hashes of
        (True, hashes1) \<Rightarrow> keep_new md5 rest hashes1
      | (False, hashes1) \<Rightarrow>
          (case keep_new md5 rest hashes1 of (jobs, hashes2) \<Rightarrow> (job_data # jobs, hashes2)))"

text \<open>
  \<^verbatim>\<open>scrape_remoteok_jobs\<close>, \<^verbatim>\<open>scrape_ycombinator_jobs\<close>,
  \<^verbatim>\<open>scrape_wellfound_jobs\<close> and \<^verbatim>\<open>scrape_otta_jobs\<close>: a disabled source returns
  \<^verbatim>\<open>[]\<close>; the outer \<^verbatim>\<open>except Exception\<close> turns a failed fetch into \<^verbatim>\<open>[]\<close> as well;
  otherwise the records pass through the duplicate check.
\<close>

definition scrape_source_jobs ::
  "(string \<Rightarrow> string) \<Rightarrow> Settings \<Rightarrow> task_env \<Rightarrow> JobSource \<Rightarrow> int \<Rightarrow> string set
     \<Rightarrow> JobData list \<times> string set" where
  "scrape_source_jobs md5 cfg env src limit hashes =
     (if \<not> source_enabled cfg src then ([], hashes)
      else case source_result env src limit of
             None \<Rightarrow> ([], hashes)
           | Some items \<Rightarrow> keep_new md5 items hashes)"

text \<open>
  \<^verbatim>\<open>_save_jobs_to_database\<close>: returns 0 on an empty batch before it opens a session;
  \<^verbatim>\<open>SessionLocal()\<close> stands outside the \<^verbatim>\<open>try\<close>, so its exception leaves the
  function; everything after it is caught and the count is returned.
\<close>

definition save_jobs_to_database :: "task_env \<Rightarrow> JobData list \<Rightarrow> py_exception + int" where
  "save_jobs_to_database env jobs =
     (if jobs = [] then Inr 0
      else case db_connect_error env of
             Some msg \<Rightarrow> Inl (Exception msg)
           | None \<Rightarrow> Inr (db_saved env jobs))"

record scrape_run =
  run_events :: "event list"
  all_jobs :: "JobData list"       \<comment> \<open>the batch \<^verbatim>\<open>all_jobs\<close> built by the run\<close>
  results :: "py_exception + (string \<times> int) list"

text \<open>
  The \<^verbatim>\<open>for source_name, task in tasks\<close> loop: the coroutines are awaited one after
  the other, sharing the scraper's \<^verbatim>\<open>scraped_job_hashes\<close>. The adapters catch every
  exception themselves, so the loop's own \<^verbatim>\<open>except\<close> branch is never taken.
\<close>

fun await_tasks ::
  "(string \<Rightarrow> string) \<Rightarrow> Settings \<Rightarrow> task_env \<Rightarrow> int \<Rightarrow> JobSource list
     \<Rightarrow> event list \<times> JobData list \<times> (string \<times> int) list \<times> string set
     \<Rightarrow> event list \<times> JobData list \<times> (string \<times> int) list \<times> string set" where
  "await_tasks md5 cfg env limit [] acc = acc"
| "await_tasks md5 cfg env limit (src # tasks) (evs, jobs_acc, res, hashes) =
     (case scrape_source_jobs md5 cfg env src limit hashes of
        (jobs, hashes1) \<Rightarrow>
          await_tasks md5 cfg env limit tasks
            (evs @ [AdapterCall src], jobs_acc @ jobs,
             res @ [(source_name src, int (length jobs))], hashes1))"

text \<open>
  \<^verbatim>\<open>JobDataManager.scrape_all_sources\<close>. Each call builds its own
  \<^verbatim>\<open>EnhancedJobScraper()\<close>, whose \<^verbatim>\<open>__init__\<close> sets
  \<^verbatim>\<open>scraped_job_hashes = set()\<close>.
\<close>

definition enabled_sources :: "Settings \<Rightarrow> int" where
  "enabled_sources cfg =
     of_bool (ENABLE_REMOTEOK cfg) + of_bool (ENABLE_YCOMBINATOR cfg)
     + of_bool (ENABLE_WELLFOUND cfg) + of_bool (ENABLE_OTTA cfg)"

definition tasks :: "Settings \<Rightarrow> JobSource list" where
  "tasks cfg = filter (source_enabled cfg) [REMOTEOK, YCOMBINATOR, WELLFOUND, OTTA]"

definition scrape_all_sources :: "(string \<Rightarrow> string) \<Rightarrow> Settings \<Rightarrow> task_env \<Rightarrow> int \<Rightarrow> scrape_run" where
  "scrape_all_sources md5 cfg env total_jobs =
     (if \<not> SCRAPING_ENABLED cfg then \<lparr>run_events = [], all_jobs = [], results = Inr []\<rparr>
      else case session_error env of
        Some msg \<Rightarrow> \<lparr>run_events = [], all_jobs = [], results = Inl (Exception msg)\<rparr>
      | None \<Rightarrow>
        if enabled_sources cfg = 0 then \<lparr>run_events = [], all_jobs = [], results = Inr []\<rparr>
        else
          (let jobs_per_source = max 1 (total_jobs div enabled_sources cfg)
           in case await_tasks md5 cfg env jobs_per_source (tasks cfg) ([], [], [], {}) of
                (evs, jobs, res, hashes) \<Rightarrow>
                  (case save_jobs_to_database env jobs of
                     Inl e \<Rightarrow>
                       \<lparr>run_events = evs @ [SaveJobs jobs], all_jobs = jobs, results = Inl e\<rparr>
                   | Inr saved_count \<Rightarrow>
                       \<lparr>run_events = evs @ [SaveJobs jobs], all_jobs = jobs,
                        results = Inr (res @ [(''total_scraped'', int (length jobs)),
                                              (''total_saved'', saved_count)])\<rparr>)))"

text \<open>\<^verbatim>\<open>run_enhanced_job_scraper\<close>: a new \<^verbatim>\<open>JobDataManager\<close> for every call.\<close>

definition run_enhanced_job_scraper :: "(string \<Rightarrow> string) \<Rightarrow> Settings \<Rightarrow> task_env \<Rightarrow> int \<Rightarrow> scrape_run" where
  "run_enhanced_job_scraper md5 cfg env num_jobs = scrape_all_sources md5 cfg env num_jobs"

subsection \<open>JobScrapingMetrics\<close>

record JobScrapingMetrics =
  last_run :: "int option"
  last_success :: "int option"
  consecutive_failures :: int
  total_runs :: int
  total_jobs_scraped :: int
  total_jobs_saved :: int

definition JobScrapingMetrics_init :: JobScrapingMetrics where
  "JobScrapingMetrics_init =
     \<lparr>last_run = None, last_success = None, consecutive_failures = 0, total_runs = 0,
      total_jobs_scraped = 0, total_jobs_saved = 0\<rparr>"

definition record_run_start :: "int \<Rightarrow> JobScrapingMetrics \<Rightarrow> JobScrapingMetrics" where
  "record_run_start now m = m\<lparr>last_run := Some now, total_runs := total_runs m + 1\<rparr>"

definition record_run_success :: "int \<Rightarrow> int \<Rightarrow> int \<Rightarrow> JobScrapingMetrics \<Rightarrow> JobScrapingMetrics" where
  "record_run_success now jobs_scraped jobs_saved m =
     m\<lparr>last_success := Some now, consecutive_failures := 0,
       total_jobs_scraped := total_jobs_scraped m + jobs_scraped,
       total_jobs_saved := total_jobs_saved m + jobs_saved\<rparr>"

definition record_run_failure :: "JobScrapingMetrics \<Rightarrow> JobScrapingMetrics" where
  "record_run_failure m = m\<lparr>consecutive_failures := consecutive_failures m + 1\<rparr>"

text \<open>\<^verbatim>\<open>timedelta(minutes=m)\<close> in microseconds.\<close>

definition timedelta_minutes :: "int \<Rightarrow> int" where
  "timedelta_minutes m = m * 60000000"

text \<open>
  \<^verbatim>\<open>is_healthy\<close>, with \<open>now\<close> the value of \<^verbatim>\<open>datetime.now()\<close>. A
  \<^verbatim>\<open>datetime\<close> is always true in a condition, so \<^verbatim>\<open>not self.last_run\<close> tests for
  \<^verbatim>\<open>None\<close>.
\<close>

definition is_healthy :: "Settings \<Rightarrow> int \<Rightarrow> JobScrapingMetrics \<Rightarrow> bool" where
  "is_healthy cfg now m =
     (if last_run m = None then False
      else
        (let max_time_since_success = timedelta_minutes (SCRAPING_INTERVAL_MINUTES cfg * 2)
         in if last_success m \<noteq> None \<and> now - the (last_success m) \<le> max_time_since_success
            then True
            else consecutive_failures m < 3))"

record metrics_status =
  status_last_run :: "int option"
  status_last_success :: "int option"
  status_consecutive_failures :: int
  status_total_runs :: int
  status_total_jobs_scraped :: int
  status_total_jobs_saved :: int
  status_is_healthy :: bool
  status_uptime_minutes :: real

text \<open>\<^verbatim>\<open>JobScrapingMetrics.get_status\<close>; the timestamps are left unrendered.\<close>

definition metrics_get_status :: "Settings \<Rightarrow> int \<Rightarrow> JobScrapingMetrics \<Rightarrow> metrics_status" where
  "metrics_get_status cfg now m =
     \<lparr>status_last_run = last_run m,
      status_last_success = last_success m,
      status_consecutive_failures = consecutive_failures m,
      status_total_runs = total_runs m,
      status_total_jobs_scraped = total_jobs_scraped m,
      status_total_jobs_saved = total_jobs_saved m,
      status_is_healthy = is_healthy cfg now m,
      status_uptime_minutes =
        (case last_run m of None \<Rightarrow> 0
         | Some started \<Rightarrow> real_of_int (now - started) / 1000000 / 60)\<rparr>"

subsection \<open>JobScrapingScheduler\<close>

datatype trigger =
    IntervalTrigger int    \<comment> \<open>\<^verbatim>\<open>IntervalTrigger(minutes=...)\<close>\<close>
  | CronTrigger int int    \<comment> \<open>\<^verbatim>\<open>CronTrigger(hour=..., minute=...)\<close>\<close>
  | DateTrigger int        \<comment> \<open>\<^verbatim>\<open>trigger='date', run_date=...\<close>\<close>

record scheduled_job =
  job_id :: string
  job_name :: string
  job_trigger :: trigger

record JobScrapingScheduler =
  metrics :: JobScrapingMetrics
  running :: bool                  \<comment> \<open>\<^verbatim>\<open>self.scheduler.running\<close>\<close>
  jobs :: "scheduled_job list"     \<comment> \<open>what has been given to \<^verbatim>\<open>self.scheduler.add_job\<close>\<close>

definition JobScrapingScheduler_init :: JobScrapingScheduler where
  "JobScrapingScheduler_init = \<lparr>metrics = JobScrapingMetrics_init, running = False, jobs = []\<rparr>"

text \<open>
  A value of type \<^verbatim>\<open>Optional[str]\<close> in a condition: \<^verbatim>\<open>None\<close> and the empty string
  are false.
\<close>

definition truthy :: "string option \<Rightarrow> bool" where
  "truthy s = (case s of None \<Rightarrow> False | Some v \<Rightarrow> v \<noteq> [])"

text \<open>
  \<^verbatim>\<open>_send_notification\<close>: Slack first, then e-mail, inside one \<^verbatim>\<open>try\<close>; when the
  Slack post raises, the handler logs it and the e-mail is not reached.
\<close>

definition send_notification :: "Settings \<Rightarrow> task_env \<Rightarrow> message \<Rightarrow> string \<Rightarrow> event list" where
  "send_notification cfg env msg level =
     (if truthy (SLACK_WEBHOOK_URL cfg) \<and> slack_error env then []
      else (if truthy (SLACK_WEBHOOK_URL cfg) then [SlackPost msg level] else [])
           @ (if truthy (ERROR_NOTIFICATION_EMAIL cfg) \<and> SMTP_USER cfg \<noteq> []
              then [EmailSent msg level] else []))"

definition send_alert :: "Settings \<Rightarrow> task_env \<Rightarrow> message \<Rightarrow> event list" where
  "send_alert cfg env msg = send_notification cfg env (Alert msg) ''error''"

text \<open>\<^verbatim>\<open>results.get(key, 0)\<close> on the dictionary returned by the scraper.\<close>

definition dict_get :: "(string \<times> int) list \<Rightarrow> string \<Rightarrow> int \<Rightarrow> int" where
  "dict_get d k dflt = (case map_of d k of None \<Rightarrow> dflt | Some v \<Rightarrow> v)"

text \<open>
  \<^verbatim>\<open>scrape_jobs_task\<close>: the events of this invocation and the scheduler afterwards.
  The whole body is inside \<^verbatim>\<open>try ... except Exception\<close>, so the task itself never
  raises, and the listener of \<^verbatim>\<open>_setup_scheduler_events\<close> never sees an exception
  from it.
\<close>

definition scrape_jobs_task ::
  "(string \<Rightarrow> string) \<Rightarrow> Settings \<Rightarrow> task_env \<Rightarrow> JobScrapingScheduler
     \<Rightarrow> event list \<times> JobScrapingScheduler" where
  "scrape_jobs_task md5 cfg env sch =
     (let m1 = record_run_start (now_start env) (metrics sch)
      in if \<not> SCRAPING_ENABLED cfg then ([], sch\<lparr>metrics := m1\<rparr>)
         else if consecutive_failures m1 \<ge> 5
         then (send_alert cfg env DisabledDueToFailures, sch\<lparr>metrics := m1\<rparr>)
         else
           (let run = run_enhanced_job_scraper md5 cfg env (SCRAPING_MAX_JOBS_PER_RUN cfg)
            in case results run of
                 Inl e \<Rightarrow>
                   (run_events run @ send_alert cfg env (ScrapingFailed e),
                    sch\<lparr>metrics := record_run_failure m1\<rparr>)
               | Inr res \<Rightarrow>
                   (let total_scraped = dict_get res ''total_scraped'' 0;
                        total_saved = dict_get res ''total_saved'' 0;
                        m2 = record_run_success (now_success env) total_scraped total_saved m1
                    in (run_events run
                        @ (if ENABLE_ERROR_NOTIFICATIONS cfg \<and> total_saved > 0
                           then send_notification cfg env (ScrapingSuccessful total_saved) ''info''
                           else []),
                        sch\<lparr>metrics := m2\<rparr>))))"

text \<open>A sequence of triggers: the events of each invocation, and the scheduler at the end.\<close>

fun run_triggers ::
  "(string \<Rightarrow> string) \<Rightarrow> Settings \<Rightarrow> task_env list \<Rightarrow> JobScrapingScheduler
     \<Rightarrow> event list list \<times> JobScrapingScheduler" where
  "run_triggers md5 cfg [] sch = ([], sch)"
| "run_triggers md5 cfg (env # envs) sch =
     (case scrape_jobs_task md5 cfg env sch of
        (evs, sch1) \<Rightarrow>
          (case run_triggers md5 cfg envs sch1 of (rest, sch2) \<Rightarrow> (evs # rest, sch2)))"

text \<open>
  \<^verbatim>\<open>start\<close>, with \<open>now\<close> the value of \<^verbatim>\<open>datetime.now()\<close>: nothing when scraping is
  disabled; otherwise the scrape, cleanup and health-check jobs, the scheduler started,
  and the initial run 30 seconds later.
\<close>

definition start :: "Settings \<Rightarrow> int \<Rightarrow> JobScrapingScheduler \<Rightarrow> JobScrapingScheduler" where
  "start cfg now sch =
     (if \<not> SCRAPING_ENABLED cfg then sch
      else sch\<lparr>running := True,
               jobs := jobs sch @
                 [\<lparr>job_id = ''job_scraping_task'', job_name = ''Job Scraping Task'',
                   job_trigger = IntervalTrigger (SCRAPING_INTERVAL_MINUTES cfg)\<rparr>,
                  \<lparr>job_id = ''job_cleanup_task'', job_name = ''Job Cleanup Task'',
                   job_trigger = CronTrigger 2 0\<rparr>,
                  \<lparr>job_id = ''health_check_task'', job_name = ''Health Check Task'',
                   job_trigger = IntervalTrigger 30\<rparr>,
                  \<lparr>job_id = ''initial_scraping_task'', job_name = ''Initial Job Scraping Task'',
                   job_trigger = DateTrigger (now + 30 * 1000000)\<rparr>]\<rparr>)"

record configuration_status =
  scraping_enabled :: bool
  interval_minutes :: int
  max_jobs_per_run :: int
  concurrent_requests :: int
  delay_between_requests :: real

record scheduler_status =
  scheduler_running :: bool
  jobs_info :: "scheduled_job list"
  metrics_info :: metrics_status
  configuration :: configuration_status

text \<open>
  \<^verbatim>\<open>JobScrapingScheduler.get_status\<close>; the next run time that the scheduling library
  computes for each job is left out of \<open>jobs_info\<close>.
\<close>

definition get_status :: "Settings \<Rightarrow> int \<Rightarrow> JobScrapingScheduler \<Rightarrow> scheduler_status" where
  "get_status cfg now sch =
     \<lparr>scheduler_running = running sch,
      jobs_info = (if running sch then jobs sch else []),
      metrics_info = metrics_get_status cfg now (metrics sch),
      configuration =
        \<lparr>scraping_enabled = SCRAPING_ENABLED cfg,
         interval_minutes = SCRAPING_INTERVAL_MINUTES cfg,
         max_jobs_per_run = SCRAPING_MAX_JOBS_PER_RUN cfg,
         concurrent_requests = SCRAPING_CONCURRENT_REQUESTS cfg,
         delay_between_requests = SCRAPING_DELAY_BETWEEN_REQUESTS cfg\<rparr>\<rparr>"

subsection \<open>Observations on runs\<close>

text \<open>
  What the adapter of a source hands to the duplicate check: nothing when the source is
  disabled or its fetch raised.
\<close>

definition fetched :: "Settings \<Rightarrow> task_env \<Rightarrow> int \<Rightarrow> JobSource \<Rightarrow> JobData list" where
  "fetched cfg env limit src =
     (if source_enabled cfg src
      then (case source_result env src limit of None \<Rightarrow> [] | Some items \<Rightarrow> items)
      else [])"

text \<open>The jobs that a list of events hands to the database.\<close>

fun emitted :: "event list \<Rightarrow> JobData list" where
  "emitted [] = []"
| "emitted (SaveJobs batch # evs) = batch @ emitted evs"
| "emitted (ev # evs) = emitted evs"


definition is_fetch :: "event \<Rightarrow> bool" where
  "is_fetch ev = (case ev of AdapterCall src \<Rightarrow> True | _ \<Rightarrow> False)"

subsection \<open>Concrete inputs\<close>

text \<open>The defaults of \<^verbatim>\<open>config.py\<close>, with no notification channel configured.\<close>

definition default_settings :: Settings where
  "default_settings =
     \<lparr>SCRAPING_ENABLED = True, SCRAPING_INTERVAL_MINUTES = 60, SCRAPING_MAX_JOBS_PER_RUN = 200,
      SCRAPING_CONCURRENT_REQUESTS = 5, SCRAPING_DELAY_BETWEEN_REQUESTS = 2,
      RATE_LIMIT_REQUESTS_PER_MINUTE = 100, RATE_LIMIT_BURST_SIZE = 20,
      ENABLE_REMOTEOK = True, ENABLE_YCOMBINATOR = True, ENABLE_WELLFOUND = True,
      ENABLE_OTTA = True, ENABLE_ERROR_NOTIFICATIONS = True,
      ERROR_NOTIFICATION_EMAIL = None, SLACK_WEBHOOK_URL = None, SMTP_PORT = 587,
      SMTP_USER = [], SCRAPING_RATE_LIMIT = 2, MAX_CONCURRENT_REQUESTS = 5\<rparr>"

text \<open>Three enabled sources: RemoteOK, Wellfound and Otta.\<close>

definition three_sources :: Settings where
  "three_sources = default_settings\<lparr>ENABLE_YCOMBINATOR := False\<rparr>"

text \<open>Only the two sources that fetch over the network: RemoteOK and Y Combinator.\<close>

definition network_sources :: Settings where
  "network_sources = default_settings\<lparr>ENABLE_WELLFOUND := False, ENABLE_OTTA := False\<rparr>"


definition sample_job :: "string \<Rightarrow> string \<Rightarrow> string \<Rightarrow> string \<Rightarrow> JobData" where
  "sample_job t c src sid =
     \<lparr>title = t, company = c, description = [], location = ''Remote'',
      salary_min = None, salary_max = None, job_type = ''full-time'', remote_type = ''remote'',
      experience_level = ''mid'', skills = [], external_url = [], source = src,
      posted_date = 0, source_id = sid\<rparr>"

definition wellfound_job :: JobData where
  "wellfound_job = sample_job ''Backend Engineer'' ''Acme'' ''wellfound'' ''1000''"

definition otta_job :: JobData where
  "otta_job = sample_job ''Senior Software Engineer'' ''Monzo'' ''otta'' ''2000''"

text \<open>A run in which every fetch of RemoteOK raises and the other sources answer.\<close>

definition remoteok_down :: task_env where
  "remoteok_down =
     \<lparr>now_start = 100, now_success = 200, session_error = None,
      source_result = (\<lambda>src limit. case src of REMOTEOK \<Rightarrow> None
                         | WELLFOUND \<Rightarrow> Some [wellfound_job]
                         | OTTA \<Rightarrow> Some [otta_job]
                         | _ \<Rightarrow> Some []),
      db_connect_error = None, db_saved = (\<lambda>jobs. int (length jobs)), slack_error = False\<rparr>"

text \<open>A run in which every fetch of every source raises.\<close>

definition all_down :: task_env where
  "all_down =
     \<lparr>now_start = 100, now_success = 200, session_error = None,
      source_result = (\<lambda>src limit. None),
      db_connect_error = None, db_saved = (\<lambda>jobs. int (length jobs)), slack_error = False\<rparr>"

text \<open>A run in which the scraper cannot be set up.\<close>

definition scraper_broken :: task_env where
  "scraper_broken = all_down\<lparr>session_error := Some ''cannot create session''\<rparr>"

text \<open>Five runs in a row in which every fetch of every source raises.\<close>

definition five_down :: "task_env list" where
  "five_down = [all_down, all_down, all_down, all_down, all_down]"

text \<open>Five runs in a row in which the scraper cannot be set up.\<close>

definition five_broken :: "task_env list" where
  "five_broken =
     [scraper_broken, scraper_broken, scraper_broken, scraper_broken, scraper_broken]"

text \<open>A scheduler whose metrics show five consecutive failures.\<close>

definition tripped :: JobScrapingScheduler where
  "tripped =
     \<lparr>metrics = \<lparr>last_run = Some 50, last_success = None, consecutive_failures = 5,
                 total_runs = 5, total_jobs_scraped = 0, total_jobs_saved = 0\<rparr>,
      running = True, jobs = []\<rparr>"

text \<open>Request environments: every try times out; every try fails to connect.\<close>

definition always_timeout :: request_env where
  "always_timeout =
     \<lparr>clock = (\<lambda>k. 0), draw = (\<lambda>k. 0), network = (\<lambda>k. Raises TimeoutError), elapsed = (\<lambda>k. 0)\<rparr>"

definition always_refused :: request_env where
  "always_refused =
     \<lparr>clock = (\<lambda>k. 0), draw = (\<lambda>k. 0),
      network = (\<lambda>k. Raises (ClientError ''connection refused'')), elapsed = (\<lambda>k. 0)\<rparr>"

text \<open>Every try fails to connect; the draws for the delays are 0, 1/4 and 1/2.\<close>

definition refused_jitter :: request_env where
  "refused_jitter =
     \<lparr>clock = (\<lambda>k. 0),
      draw = (\<lambda>k. if k = 0 then 0 else if k = 1 then 1 / 4 else 1 / 2),
      network = (\<lambda>k. Raises (ClientError ''connection refused'')), elapsed = (\<lambda>k. 0)\<rparr>"

definition remoteok_url :: string where
  "remoteok_url = ''https://remoteok.io/api''"

definition fresh_limiter :: RateLimiter where
  "fresh_limiter = RateLimiter_init 100 20 0"

text \<open>An environment asking for a one-minute interval and five jobs per run.\<close>

definition tiny_env :: "string \<rightharpoonup> string" where
  "tiny_env =
     [''SCRAPING_INTERVAL_MINUTES'' \<mapsto> ''1'', ''SCRAPING_MAX_JOBS_PER_RUN'' \<mapsto> ''5'']"

text \<open>An environment asking for a delay of two and a half seconds.\<close>

definition fractional_delay_env :: "string \<rightharpoonup> string" where
  "fractional_delay_env = [''SCRAPING_DELAY_BETWEEN_REQUESTS'' \<mapsto> ''2.5'']"

section \<open>Properties\<close>

subsection \<open>Health rule\<close>

text \<open>
  C6, as the specification states it: for every metrics state, \<open>isHealthy()\<close> is true if
  and only if a successful run occurred within twice the schedule interval of now, or
  \<open>consecutiveFailures < 3\<close>; in particular the initial state, with no run recorded, is
  healthy. The code answers \<open>False\<close> on the initial state: it returns before the rule
  when no run has started.
\<close>

theorem is_healthy_initial_counterexample:
  "\<not> (is_healthy default_settings 0 JobScrapingMetrics_init \<longleftrightarrow>
        (last_success JobScrapingMetrics_init \<noteq> None \<and>
         0 - the (last_success JobScrapingMetrics_init)
           \<le> timedelta_minutes (2 * SCRAPING_INTERVAL_MINUTES default_settings))
        \<or> consecutive_failures JobScrapingMetrics_init < 3)"
  by (simp add: is_healthy_def JobScrapingMetrics_init_def)

text \<open>
  C6, amended: \<open>is_healthy\<close> is true if and only if at least one run has been started and
  either a successful run was recorded within twice the schedule interval of now or
  \<open>consecutive_failures < 3\<close>. A state in which no run has started is unhealthy.
\<close>

theorem is_healthy_iff:
  "is_healthy cfg now m \<longleftrightarrow>
     last_run m \<noteq> None \<and>
     ((\<exists>t. last_success m = Some t
           \<and> now - t \<le> timedelta_minutes (2 * SCRAPING_INTERVAL_MINUTES cfg))
      \<or> consecutive_failures m < 3)"
  by (cases "last_success m") (auto simp: is_healthy_def Let_def mult.commute)

subsection \<open>Token bucket\<close>







subsection \<open>Skipped runs\<close>

text \<open>
  C10: an invocation of the scrape task that is skipped, because scraping is disabled or
  because the breaker is open, increments \<open>total_runs\<close> and sets \<open>last_run\<close>, and leaves
  \<open>consecutive_failures\<close>, \<open>last_success\<close>, \<open>total_jobs_scraped\<close> and \<open>total_jobs_saved\<close>
  as they were.
\<close>

theorem skipped_run_metrics:
  assumes "\<not> SCRAPING_ENABLED cfg \<or> consecutive_failures (metrics sch) \<ge> 5"
  shows "metrics (snd (scrape_jobs_task md5 cfg env sch)) =
           (metrics sch)\<lparr>last_run := Some (now_start env),
                         total_runs := total_runs (metrics sch) + 1\<rparr>"
  using assms by (auto simp: scrape_jobs_task_def Let_def record_run_start_def)

theorem skipped_run_metrics_witness:
  "consecutive_failures (metrics tripped) \<ge> 5 \<and>
   metrics (snd (scrape_jobs_task id default_settings all_down tripped)) =
     \<lparr>last_run = Some 100, last_success = None, consecutive_failures = 5,
      total_runs = 6, total_jobs_scraped = 0, total_jobs_saved = 0\<rparr>"
  using skipped_run_metrics [of default_settings tripped id all_down]
  by (simp add: tripped_def all_down_def)

subsection \<open>Jittered delay\<close>

lemma request_delay_bounds:
  assumes "0 \<le> u" "u < 1"
  shows "delay_ok cfg (request_delay cfg u)"
proof -
  define b where "b = SCRAPING_DELAY_BETWEEN_REQUESTS cfg"
  have eq: "request_delay cfg u = (1 - u) * (1 / 2) + u * b"
    by (simp add: request_delay_def uniform_def b_def field_simps)
  have "(1 - u) * min (1 / 2) b + u * min (1 / 2) b \<le> (1 - u) * (1 / 2) + u * b"
    using assms by (intro add_mono mult_left_mono) auto
  moreover have "(1 - u) * (1 / 2) + u * b \<le> (1 - u) * max (1 / 2) b + u * max (1 / 2) b"
    using assms by (intro add_mono mult_left_mono) auto
  moreover have "(1 - u) * x + u * x = x" for x :: real
    by (simp add: algebra_simps)
  ultimately show ?thesis unfolding eq delay_ok_def b_def[symmetric] by simp
qed

lemma make_request_from_delays:
  assumes "\<And>k. 0 \<le> draw env k \<and> draw env k < 1"
    and "list_all (delay_ok cfg) slept" and "length slept = tries"
  shows "list_all (delay_ok cfg) (delays (make_request_from cfg env url tries slept rl))
         \<and> length (delays (make_request_from cfg env url tries slept rl))
             = attempts (make_request_from cfg env url tries slept rl)"
  using assms
proof (induction cfg env url tries slept rl rule: make_request_from.induct)
  case (1 cfg env url tries slept rl)
  have d: "delay_ok cfg (request_delay cfg (draw env tries))"
    using request_delay_bounds[of "draw env tries" cfg] "1.prems"(1) by simp
  show ?case
    apply (subst (1 2 3) make_request_from.simps)
    using 1 d
    apply (auto split: prod.splits acquire_result.splits sum.splits simp: Let_def)
    done
qed

text \<open>
  C8, as the specification states it: for every random draw the delay slept before a
  request lies in \<open>[0.5 \<times> baseDelay, baseDelay]\<close>. With the default base delay of 2 seconds
  and the draw 0 the code sleeps 0.5 seconds, below \<open>0.5 \<times> 2\<close>.
\<close>

theorem request_delay_counterexample:
  "\<not> (1 / 2 * SCRAPING_DELAY_BETWEEN_REQUESTS default_settings \<le> request_delay default_settings 0
      \<and> request_delay default_settings 0 \<le> SCRAPING_DELAY_BETWEEN_REQUESTS default_settings)"
  by (simp add: request_delay_def uniform_def default_settings_def)

lemma make_request_from_delays_eq:
  "delays (make_request_from cfg env url tries slept rl)
     = slept @ map (\<lambda>k. request_delay cfg (draw env k))
                 [tries..<attempts (make_request_from cfg env url tries slept rl)]
   \<and> tries \<le> attempts (make_request_from cfg env url tries slept rl)"
proof (induction cfg env url tries slept rl rule: make_request_from.induct)
  case (1 cfg env url tries slept rl)
  obtain res rl1 where a: "acquire (clock env tries) rl = (res, rl1)" by force
  let ?d = "request_delay cfg (draw env tries)"
  show ?case
  proof (cases res)
    case (Raised e)
    then show ?thesis
      by (subst (1 2 3) make_request_from.simps) (simp add: a)
  next
    case Immediate
    show ?thesis
    proof (cases "send_request url (network env tries)")
      case (Inr response)
      then show ?thesis
        by (subst (1 2 3) make_request_from.simps) (simp add: a Immediate Let_def)
    next
      case (Inl e)
      show ?thesis
      proof (cases "\<not> retryable e \<or> max_tries \<le> tries + 1 \<or> max_time \<le> elapsed env tries")
        case True
        then show ?thesis
          by (subst (1 2 3) make_request_from.simps) (auto simp: a Immediate Inl Let_def)
      next
        case False
        have ih: "delays (make_request_from cfg env url (tries + 1) (slept @ [?d]) rl1)
                    = (slept @ [?d]) @ map (\<lambda>k. request_delay cfg (draw env k))
                        [tries + 1..<attempts (make_request_from cfg env url (tries + 1) (slept @ [?d]) rl1)]
                  \<and> tries + 1 \<le> attempts (make_request_from cfg env url (tries + 1) (slept @ [?d]) rl1)"
          using "1.IH"(1)[OF a[symmetric] Immediate refl Inl False] by simp
        have step: "make_request_from cfg env url tries slept rl
                      = make_request_from cfg env url (tries + 1) (slept @ [?d]) rl1"
          using False by (subst make_request_from.simps) (auto simp: a Immediate Inl Let_def)
        show ?thesis
          unfolding step using ih by (auto simp: upt_conv_Cons)
      qed
    qed
  next
    case (Slept w)
    show ?thesis
    proof (cases "send_request url (network env tries)")
      case (Inr response)
      then show ?thesis
        by (subst (1 2 3) make_request_from.simps) (simp add: a Slept Let_def)
    next
      case (Inl e)
      show ?thesis
      proof (cases "\<not> retryable e \<or> max_tries \<le> tries + 1 \<or> max_time \<le> elapsed env tries")
        case True
        then show ?thesis
          by (subst (1 2 3) make_request_from.simps) (auto simp: a Slept Inl Let_def)
      next
        case False
        have ih: "delays (make_request_from cfg env url (tries + 1) (slept @ [?d]) rl1)
                    = (slept @ [?d]) @ map (\<lambda>k. request_delay cfg (draw env k))
                        [tries + 1..<attempts (make_request_from cfg env url (tries + 1) (slept @ [?d]) rl1)]
                  \<and> tries + 1 \<le> attempts (make_request_from cfg env url (tries + 1) (slept @ [?d]) rl1)"
          using "1.IH"(2)[OF a[symmetric] Slept refl Inl False] by simp
        have step: "make_request_from cfg env url tries slept rl
                      = make_request_from cfg env url (tries + 1) (slept @ [?d]) rl1"
          using False by (subst make_request_from.simps) (auto simp: a Slept Inl Let_def)
        show ?thesis
          unfolding step using ih by (auto simp: upt_conv_Cons)
      qed
    qed
  qed
qed

text \<open>
  C8, amended: before every outbound request the executor sleeps one jittered delay,
  \<open>0.5 + (baseDelay - 0.5) \<times> u\<close> for a draw \<open>u\<close> in \<open>[0, 1)\<close>, a fresh draw for every
  attempt; for every possible draw the delay lies between the constant 0.5 seconds and
  \<open>baseDelay\<close> (the lower end is 0.5 seconds, not half the base delay).
\<close>

theorem request_delay_interval:
  assumes "\<forall>k. 0 \<le> draw env k \<and> draw env k < 1"
  shows "delays (make_request cfg env url rl)
           = map (\<lambda>k. 1 / 2 + (SCRAPING_DELAY_BETWEEN_REQUESTS cfg - 1 / 2) * draw env k)
               [0..<attempts (make_request cfg env url rl)]
         \<and> list_all (delay_ok cfg) (delays (make_request cfg env url rl))
         \<and> length (delays (make_request cfg env url rl)) = attempts (make_request cfg env url rl)"
proof -
  have eq: "delays (make_request cfg env url rl)
              = map (\<lambda>k. request_delay cfg (draw env k)) [0..<attempts (make_request cfg env url rl)]"
    unfolding make_request_def using make_request_from_delays_eq[of cfg env url 0 "[]" rl] by simp
  have f: "request_delay cfg (draw env k)
             = 1 / 2 + (SCRAPING_DELAY_BETWEEN_REQUESTS cfg - 1 / 2) * draw env k" for k
    by (simp add: request_delay_def uniform_def)
  have b: "list_all (delay_ok cfg) (delays (make_request cfg env url rl))
           \<and> length (delays (make_request cfg env url rl)) = attempts (make_request cfg env url rl)"
    unfolding make_request_def
    by (rule make_request_from_delays) (use assms in simp_all)
  show ?thesis using eq b by (simp add: f)
qed

theorem request_delay_interval_witness:
  "(\<forall>k. 0 \<le> draw refused_jitter k \<and> draw refused_jitter k < 1)
   \<and> attempts (make_request default_settings refused_jitter remoteok_url fresh_limiter) = 3
   \<and> delays (make_request default_settings refused_jitter remoteok_url fresh_limiter)
       = [1 / 2, 7 / 8, 5 / 4]
   \<and> list_all (delay_ok default_settings) [1 / 2, 7 / 8, 5 / 4]"
proof -
  have d: "\<forall>k. 0 \<le> draw refused_jitter k \<and> draw refused_jitter k < 1"
    by (simp add: refused_jitter_def)
  have a: "attempts (make_request default_settings refused_jitter remoteok_url fresh_limiter) = 3"
    by (simp add: make_request_def refused_jitter_def fresh_limiter_def RateLimiter_init_def
          acquire_def Let_def max_tries_def max_time_def)
  have b: "SCRAPING_DELAY_BETWEEN_REQUESTS default_settings = 2"
    by (simp add: default_settings_def)
  have u: "[0..<3] = [0, 1, 2]" by (simp add: upt_conv_Cons)
  have w: "draw refused_jitter 0 = 0" "draw refused_jitter (Suc 0) = 1 / 4"
    "draw refused_jitter 2 = 1 / 2"
    by (simp_all add: refused_jitter_def)
  from request_delay_interval[OF d, of default_settings remoteok_url fresh_limiter]
  show ?thesis using d by (simp add: a b u w delay_ok_def)
qed

subsection \<open>Retry bound\<close>

text \<open>
  C3: a source whose requests always time out gets exactly 3 attempts before the
  transient error is surfaced, like every other transient condition. The code makes one
  attempt: the handler inside \<open>_make_request\<close> turns the timeout into a
  \<open>JobScrapeError\<close>, which is not among the exceptions the retry decorator lists, so the
  decorator gives up at once. An HTTP error status takes the same path. A connection
  error, which no inner handler catches, does get the 3 attempts.
\<close>

theorem make_request_timeout_single_attempt:
  "attempts (make_request default_settings always_timeout remoteok_url fresh_limiter)
     = 1
   \<and> outcome (make_request default_settings always_timeout remoteok_url fresh_limiter)
       = Inl (JobScrapeError (RequestTimeout remoteok_url))
   \<and> attempts (make_request default_settings always_refused remoteok_url fresh_limiter)
       = 3
   \<and> outcome (make_request default_settings always_refused remoteok_url fresh_limiter)
       = Inl (ClientError ''connection refused'')"
  by (simp add: make_request_def always_timeout_def always_refused_def fresh_limiter_def
        RateLimiter_init_def acquire_def Let_def max_tries_def max_time_def remoteok_url_def)

subsection \<open>Circuit breaker\<close>

lemma skipped_task:
  assumes "SCRAPING_ENABLED cfg" "5 \<le> consecutive_failures (metrics sch)"
  shows "scrape_jobs_task md5 cfg env sch =
           (send_alert cfg env DisabledDueToFailures,
            sch\<lparr>metrics := record_run_start (now_start env) (metrics sch)\<rparr>)"
  using assms by (simp add: scrape_jobs_task_def Let_def record_run_start_def)





lemma failing_task:
  assumes "SCRAPING_ENABLED cfg"
    and "isl (results (run_enhanced_job_scraper md5 cfg env (SCRAPING_MAX_JOBS_PER_RUN cfg)))"
  shows "consecutive_failures (metrics (snd (scrape_jobs_task md5 cfg env sch))) =
           (if consecutive_failures (metrics sch) < 5 then consecutive_failures (metrics sch) + 1
            else consecutive_failures (metrics sch))"
  using assms
  by (auto simp: scrape_jobs_task_def Let_def record_run_start_def record_run_failure_def isl_def
           split: sum.splits)

lemma failing_triggers:
  assumes "SCRAPING_ENABLED cfg"
    and "\<forall>env \<in> set fails.
           isl (results (run_enhanced_job_scraper md5 cfg env (SCRAPING_MAX_JOBS_PER_RUN cfg)))"
  shows "min (consecutive_failures (metrics sch) + int (length fails)) 5
           \<le> consecutive_failures (metrics (snd (run_triggers md5 cfg fails sch)))"
  using assms
proof (induction fails arbitrary: sch)
  case Nil
  then show ?case by simp
next
  case (Cons env fails)
  obtain evs sch1 where t: "scrape_jobs_task md5 cfg env sch = (evs, sch1)" by force
  have step: "consecutive_failures (metrics sch1) =
           (if consecutive_failures (metrics sch) < 5 then consecutive_failures (metrics sch) + 1
            else consecutive_failures (metrics sch))"
    using failing_task[of cfg md5 env sch] Cons.prems t by simp
  have "min (consecutive_failures (metrics sch1) + int (length fails)) 5
           \<le> consecutive_failures (metrics (snd (run_triggers md5 cfg fails sch1)))"
    using Cons.IH[of sch1] Cons.prems by simp
  then show ?case using t step by (auto split: prod.splits if_splits)
qed

lemma run_network_down:
  "scrape_all_sources id network_sources all_down 200 =
     \<lparr>run_events = [AdapterCall REMOTEOK, AdapterCall YCOMBINATOR, SaveJobs []],
      all_jobs = [],
      results = Inr [(''RemoteOK'', 0), (''Y Combinator'', 0),
                     (''total_scraped'', 0), (''total_saved'', 0)]\<rparr>"
  by (simp add: scrape_all_sources_def network_sources_def default_settings_def all_down_def
        enabled_sources_def tasks_def source_enabled_def scrape_source_jobs_def source_name_def
        save_jobs_to_database_def Let_def)

lemma network_sources_fields:
  "SCRAPING_ENABLED network_sources" "SCRAPING_MAX_JOBS_PER_RUN network_sources = 200"
  "send_notification network_sources env msg level = []"
  by (simp_all add: network_sources_def default_settings_def send_notification_def truthy_def)

lemma task_network_down:
  "consecutive_failures (metrics sch) < 5 \<Longrightarrow>
   scrape_jobs_task id network_sources all_down sch =
     ([AdapterCall REMOTEOK, AdapterCall YCOMBINATOR, SaveJobs []],
      sch\<lparr>metrics := record_run_success 200 0 0 (record_run_start 100 (metrics sch))\<rparr>)"
  by (simp add: scrape_jobs_task_def Let_def run_enhanced_job_scraper_def network_sources_fields
        all_down_def[THEN arg_cong, of now_start] run_network_down dict_get_def
        record_run_start_def)
    (simp add: all_down_def)

text \<open>
  C5, as the specification states it: after 5 consecutive failing runs the 6th trigger
  performs no fetch and the status reports Suspended. A failing run, in the
  specification's terms, is one in which no adapter returned a job and at least one
  reported a fetch error. With RemoteOK and Y Combinator enabled and every fetch raising,
  five such runs in a row are each recorded as a success; the 6th trigger calls both
  adapters again and the status shows 0 consecutive failures.
\<close>

theorem circuit_breaker_counterexample:
  "all_jobs (run_enhanced_job_scraper id network_sources all_down
               (SCRAPING_MAX_JOBS_PER_RUN network_sources)) = []
   \<and> source_result all_down REMOTEOK 100 = None
   \<and> source_result all_down YCOMBINATOR 100 = None
   \<and> filter is_fetch
       (fst (scrape_jobs_task id network_sources all_down
               (snd (run_triggers id network_sources five_down JobScrapingScheduler_init))))
       = [AdapterCall REMOTEOK, AdapterCall YCOMBINATOR]
   \<and> status_consecutive_failures
       (metrics_info (get_status network_sources 1000
          (snd (scrape_jobs_task id network_sources all_down
                  (snd (run_triggers id network_sources five_down JobScrapingScheduler_init))))))
       = 0"
proof -
  have j: "all_jobs (run_enhanced_job_scraper id network_sources all_down
                      (SCRAPING_MAX_JOBS_PER_RUN network_sources)) = []"
    by (simp add: run_enhanced_job_scraper_def network_sources_fields run_network_down)
  have s: "source_result all_down REMOTEOK 100 = None"
    "source_result all_down YCOMBINATOR 100 = None"
    by (simp_all add: all_down_def)
  have t: "consecutive_failures (metrics sch) = 0 \<Longrightarrow>
           consecutive_failures (metrics (snd (scrape_jobs_task id network_sources all_down sch))) = 0
           \<and> fst (scrape_jobs_task id network_sources all_down sch)
               = [AdapterCall REMOTEOK, AdapterCall YCOMBINATOR, SaveJobs []]" for sch
    by (simp add: task_network_down record_run_success_def)
  have five: "consecutive_failures
                (metrics (snd (run_triggers id network_sources five_down
                                 JobScrapingScheduler_init))) = 0"
    by (simp add: five_down_def task_network_down JobScrapingScheduler_init_def
          JobScrapingMetrics_init_def record_run_success_def record_run_start_def)
  show ?thesis
    using j s t[OF five]
    by (simp add: is_fetch_def get_status_def metrics_get_status_def)
qed

text \<open>
  C5, amended: after 5 consecutive runs that the code records as failures, which are the
  runs in which the scraper call itself raises, the 6th trigger returns before any
  adapter is invoked, its only events being those of the alert, and the status afterwards
  shows \<open>consecutive_failures \<ge> 5\<close> in its metrics. The status has no field that names a
  state. Runs in which the adapters err and no job is returned are recorded as successes
  and do not open the breaker.
\<close>

theorem circuit_breaker_sixth_trigger:
  assumes "SCRAPING_ENABLED cfg" "0 \<le> consecutive_failures (metrics sch)" "length fails = 5"
    and "\<forall>env \<in> set fails.
           isl (results (run_enhanced_job_scraper md5 cfg env (SCRAPING_MAX_JOBS_PER_RUN cfg)))"
  shows "fst (scrape_jobs_task md5 cfg env6 (snd (run_triggers md5 cfg fails sch)))
           = send_alert cfg env6 DisabledDueToFailures
       \<and> filter is_fetch (fst (scrape_jobs_task md5 cfg env6 (snd (run_triggers md5 cfg fails sch))))
           = []
       \<and> 5 \<le> status_consecutive_failures
               (metrics_info (get_status cfg now
                  (snd (scrape_jobs_task md5 cfg env6 (snd (run_triggers md5 cfg fails sch))))))"
proof -
  let ?sch5 = "snd (run_triggers md5 cfg fails sch)"
  have five: "5 \<le> consecutive_failures (metrics ?sch5)"
    using failing_triggers[OF assms(1,4), of sch] assms(2,3) by simp
  show ?thesis
    using five assms(1)
    by (simp add: skipped_task send_alert_def send_notification_def is_fetch_def
          get_status_def metrics_get_status_def record_run_start_def)
qed

lemma scraper_broken_fails:
  "isl (results (run_enhanced_job_scraper id default_settings scraper_broken
                   (SCRAPING_MAX_JOBS_PER_RUN default_settings)))"
  by (simp add: run_enhanced_job_scraper_def scrape_all_sources_def default_settings_def
        scraper_broken_def all_down_def)

theorem circuit_breaker_sixth_trigger_witness:
  "SCRAPING_ENABLED default_settings
   \<and> 0 \<le> consecutive_failures (metrics JobScrapingScheduler_init)
   \<and> length five_broken = 5
   \<and> list_all (\<lambda>env. isl (results (run_enhanced_job_scraper id default_settings env
                                      (SCRAPING_MAX_JOBS_PER_RUN default_settings))))
       five_broken
   \<and> fst (scrape_jobs_task id default_settings remoteok_down
            (snd (run_triggers id default_settings five_broken JobScrapingScheduler_init))) = []
   \<and> 5 \<le> status_consecutive_failures
           (metrics_info (get_status default_settings 1000
              (snd (scrape_jobs_task id default_settings remoteok_down
                  (snd (run_triggers id default_settings five_broken
                          JobScrapingScheduler_init))))))"
proof -
  have e: "SCRAPING_ENABLED default_settings" by (simp add: default_settings_def)
  have z: "0 \<le> consecutive_failures (metrics JobScrapingScheduler_init)"
    by (simp add: JobScrapingScheduler_init_def JobScrapingMetrics_init_def)
  have l: "length five_broken = 5" by (simp add: five_broken_def)
  have b: "\<forall>env \<in> set five_broken.
             isl (results (run_enhanced_job_scraper id default_settings env
                             (SCRAPING_MAX_JOBS_PER_RUN default_settings)))"
    using scraper_broken_fails by (simp add: five_broken_def)
  have no_channel: "send_alert default_settings remoteok_down DisabledDueToFailures = []"
    by (simp add: send_alert_def send_notification_def truthy_def default_settings_def)
  note th = circuit_breaker_sixth_trigger[OF e z l b, of remoteok_down 1000]
  show ?thesis
    using th e z l b no_channel by (simp add: list_all_iff)
qed

subsection \<open>Configuration bounds\<close>

lemma decimal_values:
  "decimal_int ''1'' = Some 1" "decimal_int ''5'' = Some 5" "decimal_int ''60'' = Some 60"
  "decimal_int ''200'' = Some 200" "decimal_int ''100'' = Some 100"
  "decimal_int ''20'' = Some 20" "decimal_int ''587'' = Some 587" "decimal_int ''2'' = Some 2"
  "decimal_float ''2.0'' = Some 2" "decimal_float ''2.5'' = Some (5 / 2)"
  "decimal_int ''2.5'' = None"
  by (simp_all add: decimal_int_def decimal_float_def digit_val_def)

text \<open>
  The second reading of the delay, with \<open>int\<close>, refuses a delay that \<open>float\<close> accepts: a
  delay of 2.5 seconds makes the load raise.
\<close>

lemma load_settings_delay_not_int:
  assumes "py_int (getenv env ''SCRAPING_DELAY_BETWEEN_REQUESTS'' ''2'') = None"
  shows "load_settings py_int py_float env base = Inl ValueError"
  using assms by (simp add: load_settings_def split: option.splits)

lemma load_settings_fractional_delay:
  "load_settings decimal_int decimal_float fractional_delay_env default_settings = Inl ValueError"
  by (simp add: load_settings_def getenv_def fractional_delay_env_def decimal_values)

text \<open>
  C9, as the specification states it: a configuration with a schedule interval below 5
  minutes or a target count outside \<open>[10, 1000]\<close> is rejected when it is loaded and never
  reaches the scheduling logic. An interval of 1 minute with a target of 5 jobs is loaded
  without complaint, and \<open>start\<close> registers the scrape job with an interval trigger of 1
  minute.
\<close>

theorem load_settings_counterexample:
  "load_settings decimal_int decimal_float tiny_env default_settings
     = Inr (default_settings\<lparr>SCRAPING_INTERVAL_MINUTES := 1, SCRAPING_MAX_JOBS_PER_RUN := 5\<rparr>)
   \<and> jobs (start (default_settings\<lparr>SCRAPING_INTERVAL_MINUTES := 1,
                                    SCRAPING_MAX_JOBS_PER_RUN := 5\<rparr>)
             0 JobScrapingScheduler_init) ! 0
       = \<lparr>job_id = ''job_scraping_task'', job_name = ''Job Scraping Task'',
          job_trigger = IntervalTrigger 1\<rparr>"
  by (simp add: load_settings_def getenv_def tiny_env_def decimal_values default_settings_def
        start_def JobScrapingScheduler_init_def)

text \<open>
  C9, amended: at load time the numeric configuration values are only converted with
  \<open>int\<close> and \<open>float\<close>; no bound is checked. Whenever every conversion of the class body
  succeeds, the configuration is accepted whatever the interval and the target count are,
  and these values are what the scheduler uses: with scraping enabled, \<open>start\<close> registers
  the scrape job with \<open>IntervalTrigger(minutes=interval)\<close>.
\<close>

theorem load_settings_no_bounds:
  assumes "py_int (getenv env ''SCRAPING_INTERVAL_MINUTES'' ''60'') = Some interval"
    and "py_int (getenv env ''SCRAPING_MAX_JOBS_PER_RUN'' ''200'') = Some max_jobs"
    and "py_int (getenv env ''SCRAPING_CONCURRENT_REQUESTS'' ''5'') = Some concurrent"
    and "py_float (getenv env ''SCRAPING_DELAY_BETWEEN_REQUESTS'' ''2.0'') = Some delay"
    and "py_int (getenv env ''RATE_LIMIT_REQUESTS_PER_MINUTE'' ''100'') = Some rpm"
    and "py_int (getenv env ''RATE_LIMIT_BURST_SIZE'' ''20'') = Some burst"
    and "py_int (getenv env ''SMTP_PORT'' ''587'') = Some smtp_port"
    and "py_int (getenv env ''SCRAPING_DELAY_BETWEEN_REQUESTS'' ''2'') = Some rate_limit"
    and "SCRAPING_ENABLED base"
  shows "\<exists>cfg. load_settings py_int py_float env base = Inr cfg
           \<and> SCRAPING_INTERVAL_MINUTES cfg = interval
           \<and> SCRAPING_MAX_JOBS_PER_RUN cfg = max_jobs
           \<and> jobs (start cfg now JobScrapingScheduler_init) ! 0
               = \<lparr>job_id = ''job_scraping_task'', job_name = ''Job Scraping Task'',
                  job_trigger = IntervalTrigger interval\<rparr>"
  using assms by (simp add: load_settings_def start_def JobScrapingScheduler_init_def)

theorem load_settings_no_bounds_witness:
  "decimal_int (getenv tiny_env ''SCRAPING_INTERVAL_MINUTES'' ''60'') = Some 1
   \<and> decimal_int (getenv tiny_env ''SCRAPING_MAX_JOBS_PER_RUN'' ''200'') = Some 5
   \<and> decimal_int (getenv tiny_env ''SCRAPING_CONCURRENT_REQUESTS'' ''5'') = Some 5
   \<and> decimal_float (getenv tiny_env ''SCRAPING_DELAY_BETWEEN_REQUESTS'' ''2.0'') = Some 2
   \<and> decimal_int (getenv tiny_env ''RATE_LIMIT_REQUESTS_PER_MINUTE'' ''100'') = Some 100
   \<and> decimal_int (getenv tiny_env ''RATE_LIMIT_BURST_SIZE'' ''20'') = Some 20
   \<and> decimal_int (getenv tiny_env ''SMTP_PORT'' ''587'') = Some 587
   \<and> decimal_int (getenv tiny_env ''SCRAPING_DELAY_BETWEEN_REQUESTS'' ''2'') = Some 2
   \<and> SCRAPING_ENABLED default_settings
   \<and> (\<exists>cfg. load_settings decimal_int decimal_float tiny_env default_settings = Inr cfg
           \<and> SCRAPING_INTERVAL_MINUTES cfg = 1
           \<and> SCRAPING_MAX_JOBS_PER_RUN cfg = 5
           \<and> jobs (start cfg 0 JobScrapingScheduler_init) ! 0
               = \<lparr>job_id = ''job_scraping_task'', job_name = ''Job Scraping Task'',
                  job_trigger = IntervalTrigger 1\<rparr>)"
proof -
  have p: "decimal_int (getenv tiny_env ''SCRAPING_INTERVAL_MINUTES'' ''60'') = Some 1"
    "decimal_int (getenv tiny_env ''SCRAPING_MAX_JOBS_PER_RUN'' ''200'') = Some 5"
    "decimal_int (getenv tiny_env ''SCRAPING_CONCURRENT_REQUESTS'' ''5'') = Some 5"
    "decimal_float (getenv tiny_env ''SCRAPING_DELAY_BETWEEN_REQUESTS'' ''2.0'') = Some 2"
    "decimal_int (getenv tiny_env ''RATE_LIMIT_REQUESTS_PER_MINUTE'' ''100'') = Some 100"
    "decimal_int (getenv tiny_env ''RATE_LIMIT_BURST_SIZE'' ''20'') = Some 20"
    "decimal_int (getenv tiny_env ''SMTP_PORT'' ''587'') = Some 587"
    "decimal_int (getenv tiny_env ''SCRAPING_DELAY_BETWEEN_REQUESTS'' ''2'') = Some 2"
    by (simp_all add: getenv_def tiny_env_def decimal_values)
  have e: "SCRAPING_ENABLED default_settings" by (simp add: default_settings_def)
  from load_settings_no_bounds
         [where py_int = decimal_int and py_float = decimal_float and env = tiny_env
            and base = default_settings and now = 0, OF p e]
       p e
  show ?thesis by simp
qed

subsection \<open>Orchestration: failure of a run, and duplicates\<close>

lemma scrape_source_jobs_keep_new:
  "scrape_source_jobs md5 cfg env src limit hashes
     = keep_new md5 (fetched cfg env limit src) hashes"
  by (simp add: scrape_source_jobs_def fetched_def split: option.splits)

lemma keep_new_append:
  "keep_new md5 (xs @ ys) hashes =
     (case keep_new md5 xs hashes of (a, h1) \<Rightarrow>
        (case keep_new md5 ys h1 of (b, h2) \<Rightarrow> (a @ b, h2)))"
  by (induction xs arbitrary: hashes) (auto split: prod.splits bool.splits)

lemma await_tasks_eq:
  "await_tasks md5 cfg env limit srcs (evs, jobs_acc, res, hashes) =
     (evs @ map AdapterCall srcs,
      jobs_acc @ fst (keep_new md5 (concat (map (fetched cfg env limit) srcs)) hashes),
      fst (snd (snd (await_tasks md5 cfg env limit srcs (evs, jobs_acc, res, hashes)))),
      snd (keep_new md5 (concat (map (fetched cfg env limit) srcs)) hashes))"
proof (induction srcs arbitrary: evs jobs_acc res hashes)
  case Nil
  then show ?case by simp
next
  case (Cons src srcs)
  obtain js h1 where k: "keep_new md5 (fetched cfg env limit src) hashes = (js, h1)" by force
  show ?case
    apply (simp add: scrape_source_jobs_keep_new k keep_new_append split: prod.splits)
    apply (subst Cons.IH)
    apply (auto split: prod.splits)
    done
qed

lemma tasks_empty: "enabled_sources cfg = 0 \<Longrightarrow> tasks cfg = []"
  by (auto simp: enabled_sources_def tasks_def source_enabled_def of_bool_def split: if_splits)

lemma all_jobs_eq:
  assumes "SCRAPING_ENABLED cfg" "session_error env = None"
  shows "all_jobs (scrape_all_sources md5 cfg env total_jobs) =
      fst (keep_new md5
            (concat (map (fetched cfg env (max 1 (total_jobs div enabled_sources cfg)))
                      (tasks cfg))) {})"
proof (cases "enabled_sources cfg = 0")
  case True
  then show ?thesis using assms by (simp add: scrape_all_sources_def tasks_empty)
next
  case False
  then show ?thesis using assms
    apply (simp add: scrape_all_sources_def Let_def split: prod.splits sum.splits)
    apply (subst await_tasks_eq)
    apply auto
    apply (subst (asm) await_tasks_eq, simp)+
    done
qed


lemma keep_new_Cons:
  "keep_new md5 (x # xs) hashes =
     (if generate_job_hash md5 x \<in> hashes then keep_new md5 xs hashes
      else (x # fst (keep_new md5 xs (insert (generate_job_hash md5 x) hashes)),
            snd (keep_new md5 xs (insert (generate_job_hash md5 x) hashes))))"
  by (simp add: is_duplicate_job_def Let_def split: prod.splits)

lemma keep_new_hashes:
  "snd (keep_new md5 xs hashes) = hashes \<union> generate_job_hash md5 ` set xs"
proof (induction xs arbitrary: hashes)
  case Nil
  then show ?case by simp
next
  case (Cons x xs)
  show ?case
    unfolding keep_new_Cons using Cons.IH by auto
qed

lemma keep_new_fresh:
  "generate_job_hash md5 ` set (fst (keep_new md5 xs hashes)) \<inter> hashes = {}"
proof (induction xs arbitrary: hashes)
  case Nil
  then show ?case by simp
next
  case (Cons x xs)
  show ?case
    unfolding keep_new_Cons
    using Cons.IH[of hashes] Cons.IH[of "insert (generate_job_hash md5 x) hashes"] by auto
qed

lemma keep_new_distinct:
  "distinct (map (generate_job_hash md5) (fst (keep_new md5 xs hashes)))"
proof (induction xs arbitrary: hashes)
  case Nil
  then show ?case by simp
next
  case (Cons x xs)
  show ?case
    unfolding keep_new_Cons
    using Cons.IH[of hashes] Cons.IH[of "insert (generate_job_hash md5 x) hashes"]
      keep_new_fresh[of md5 xs "insert (generate_job_hash md5 x) hashes"]
    by auto
qed

lemma all_jobs_distinct:
  "distinct (map (generate_job_hash md5) (all_jobs (scrape_all_sources md5 cfg env total_jobs)))"
proof (cases "SCRAPING_ENABLED cfg \<and> session_error env = None")
  case True
  then show ?thesis by (simp add: all_jobs_eq keep_new_distinct)
next
  case False
  then show ?thesis by (auto simp: scrape_all_sources_def split: option.splits)
qed

lemma hashes_differ:
  "generate_job_hash id wellfound_job \<noteq> generate_job_hash id otta_job"
  by (simp add: generate_job_hash_def wellfound_job_def otta_job_def sample_job_def lower_def
        lower_char_def)

lemma run_remoteok_down:
  "scrape_all_sources id three_sources remoteok_down 200 =
     \<lparr>run_events = [AdapterCall REMOTEOK, AdapterCall WELLFOUND, AdapterCall OTTA,
                    SaveJobs [wellfound_job, otta_job]],
      all_jobs = [wellfound_job, otta_job],
      results = Inr [(''RemoteOK'', 0), (''Wellfound'', 1), (''Otta'', 1),
                     (''total_scraped'', 2), (''total_saved'', 2)]\<rparr>"
  using hashes_differ
  by (simp add: scrape_all_sources_def three_sources_def default_settings_def remoteok_down_def
        enabled_sources_def tasks_def source_enabled_def scrape_source_jobs_def source_name_def
        is_duplicate_job_def save_jobs_to_database_def Let_def)


lemma three_sources_fields:
  "SCRAPING_ENABLED three_sources" "SCRAPING_MAX_JOBS_PER_RUN three_sources = 200"
  "send_notification three_sources env msg level = []"
  by (simp_all add: three_sources_def default_settings_def send_notification_def truthy_def)

lemma env_times:
  "now_start remoteok_down = 100" "now_success remoteok_down = 200"
  "now_start all_down = 100" "now_success all_down = 200"
  by (simp_all add: remoteok_down_def all_down_def)

lemma task_remoteok_down:
  "consecutive_failures (metrics sch) < 5 \<Longrightarrow>
   scrape_jobs_task id three_sources remoteok_down sch =
     ([AdapterCall REMOTEOK, AdapterCall WELLFOUND, AdapterCall OTTA,
       SaveJobs [wellfound_job, otta_job]],
      sch\<lparr>metrics := record_run_success 200 2 2 (record_run_start 100 (metrics sch))\<rparr>)"
  by (simp add: scrape_jobs_task_def Let_def run_enhanced_job_scraper_def three_sources_fields
        env_times run_remoteok_down dict_get_def record_run_start_def)




text \<open>
  C2, as the specification states it: the fingerprint set survives across scheduled runs,
  so two runs in the same process never both emit a job with the same fingerprint. Two
  consecutive triggers of one scheduler, with the same sources answering, both hand the
  same Wellfound job to the database: every run builds a new scraper whose set is empty.
\<close>

theorem dedup_across_runs_counterexample:
  "wellfound_job \<in> set (emitted (fst (run_triggers id three_sources [remoteok_down, remoteok_down]
                                      JobScrapingScheduler_init) ! 0))
   \<and> wellfound_job \<in> set (emitted (fst (run_triggers id three_sources [remoteok_down, remoteok_down]
                                      JobScrapingScheduler_init) ! 1))"
  by (simp add: task_remoteok_down JobScrapingScheduler_init_def JobScrapingMetrics_init_def
       record_run_success_def record_run_start_def)

text \<open>
  C2, amended: the fingerprint set belongs to one scraper instance, and every run builds
  its own. Within one instance, a duplicate check answers whether the fingerprint is
  already in the set and leaves it in the set, so the first check of a fingerprint
  answers false and every later check on that instance, after any further checks, answers
  true; hence one run never emits two jobs with the same fingerprint. The set is not
  carried from one scheduled run to the next.
\<close>

theorem dedup_within_one_scraper:
  "fst (is_duplicate_job md5 j hashes) = (generate_job_hash md5 j \<in> hashes)
   \<and> generate_job_hash md5 j \<in> snd (is_duplicate_job md5 j hashes)
   \<and> fst (is_duplicate_job md5 j (snd (keep_new md5 js (snd (is_duplicate_job md5 j hashes)))))
   \<and> distinct (map (generate_job_hash md5) (all_jobs (scrape_all_sources md5 cfg env total_jobs)))"
  by (simp add: all_jobs_distinct keep_new_hashes is_duplicate_job_def Let_def)

end
